theory Spec2Isabelle
  imports Complex_Main "HOL-Library.Multiset" "HOL-Library.Sublist"
begin

section \<open>Data model\<close>

text \<open>
  Rows of the tables \<^verbatim>\<open>medications\<close>, \<^verbatim>\<open>schedules\<close> and \<^verbatim>\<open>dose_logs\<close> and the
  TypeScript interfaces of \<^verbatim>\<open>PatientDashboard\<close>. A uuid is an opaque identifier, modelled
  as a natural number. A JavaScript \<^verbatim>\<open>Date\<close> is its \<^verbatim>\<open>getTime()\<close> value: milliseconds
  since the epoch, an integer. The column \<^verbatim>\<open>schedules.time\<close> has the SQL type \<^verbatim>\<open>time\<close>
  and reaches the client as \<^verbatim>\<open>HH:MM:SS\<close>; the code reads
  \<^verbatim>\<open>const [hours, minutes] = schedule.time.split(':')\<close> and applies \<^verbatim>\<open>parseInt\<close> to both,
  so the field is kept as the pair of these two numbers. The column \<^verbatim>\<open>created_at\<close> of
  \<^verbatim>\<open>schedules\<close> and \<^verbatim>\<open>dose_logs\<close> is read nowhere and is left out.
\<close>

type_synonym uuid = nat
type_synonym Date = int

datatype dose_status = Pending | Taken | Missed | Skipped

record Medication =
  med_id :: uuid
  patient_id :: uuid
  name :: string
  dosage :: string
  instructions :: string
  med_active :: bool
  med_created_at :: Date

record Schedule =
  sched_id :: uuid
  medication_id :: uuid
  time :: "nat \<times> nat"
  days_of_week :: "nat list"
  sched_active :: bool

record DoseLog =
  log_id :: uuid
  schedule_id :: uuid
  scheduled_time :: Date
  taken_at :: "Date option"
  status :: dose_status
  log_notes :: string

record MedicationWithSchedule = Medication +
  schedules :: "Schedule list"

record UpcomingDose =
  dose_id :: "uuid \<times> Date"
  medication :: MedicationWithSchedule
  schedule :: Schedule
  scheduledTime :: Date
  doseLog :: "DoseLog option"

text \<open>
  The persistent state: the three tables the dashboard reads and writes. A table is the
  list of its rows. The row-level policies of the schema restrict a patient to the rows of
  their own medications; the database here is that patient's slice, and every request to
  the persistence service is taken to succeed.
\<close>

record Database =
  tbl_medications :: "Medication list"
  tbl_schedules :: "Schedule list"
  tbl_dose_logs :: "DoseLog list"

text \<open>The component state of \<^verbatim>\<open>PatientDashboard\<close> that the materializer touches.\<close>

record App =
  db :: Database
  medications :: "MedicationWithSchedule list"
  upcomingDoses :: "UpcomingDose list"
  loading :: bool

section \<open>Dates\<close>

text \<open>
  \<^verbatim>\<open>getDay\<close> and \<^verbatim>\<open>setHours\<close> work on the viewer's local clock. A time zone is given
  by its two offsets in milliseconds, as in the language standard: the offset in force at
  an instant (\<^verbatim>\<open>LocalTZA(t, true)\<close>), and the offset that belongs to a local time
  (\<^verbatim>\<open>LocalTZA(t, false)\<close>). Where the clocks change the two differ, so the instant that
  \<^verbatim>\<open>setHours\<close> composes may lie under another offset than the instant it starts from.
  \<^verbatim>\<open>LocalTime(t) = t + LocalTZA(t, true)\<close>, \<^verbatim>\<open>UTC(t) = t - LocalTZA(t, false)\<close>.
  1 January 1970 was a Thursday, weekday 4. \<^verbatim>\<open>setHours(h, m, 0, 0)\<close> keeps the local
  calendar day, replaces the time within it and converts back.
\<close>

record TimeZone =
  offset_at :: "Date \<Rightarrow> int"
  offset_of_local :: "int \<Rightarrow> int"

definition LocalTime :: "TimeZone \<Rightarrow> Date \<Rightarrow> int" where
  "LocalTime tz t = t + offset_at tz t"

definition UTC :: "TimeZone \<Rightarrow> int \<Rightarrow> Date" where
  "UTC tz t = t - offset_of_local tz t"

definition localDay :: "TimeZone \<Rightarrow> Date \<Rightarrow> int" where
  "localDay tz d = LocalTime tz d div 86400000"

definition getDay :: "TimeZone \<Rightarrow> Date \<Rightarrow> nat" where
  "getDay tz d = nat ((localDay tz d + 4) mod 7)"

definition setHours :: "TimeZone \<Rightarrow> Date \<Rightarrow> nat \<Rightarrow> nat \<Rightarrow> Date" where
  "setHours tz d h m = UTC tz (localDay tz d * 86400000 + int h * 3600000 + int m * 60000)"

section \<open>The persistence service\<close>

text \<open>
  The query of lines 150-156:
  \<^verbatim>\<open>from('dose_logs').select('*').eq('schedule_id', id).gte('scheduled_time', lo).lt('scheduled_time', hi)\<close>.
\<close>

definition select_dose_logs :: "DoseLog list \<Rightarrow> uuid \<Rightarrow> Date \<Rightarrow> Date \<Rightarrow> DoseLog list" where
  "select_dose_logs logs sid lo hi =
     filter (\<lambda>l. schedule_id l = sid \<and> lo \<le> scheduled_time l \<and> scheduled_time l < hi) logs"

text \<open>
  \<^verbatim>\<open>maybeSingle()\<close> of the client library: the row when the result has exactly one row,
  \<^verbatim>\<open>null\<close> when it has none, and \<^verbatim>\<open>null\<close> together with an error when it has more than
  one. The caller destructures \<^verbatim>\<open>data\<close> only, so the error is dropped.
\<close>

definition maybeSingle :: "'a list \<Rightarrow> 'a option" where
  "maybeSingle rows = (case rows of [r] \<Rightarrow> Some r | _ \<Rightarrow> None)"

text \<open>
  \<^verbatim>\<open>gen_random_uuid()\<close>, the default of \<^verbatim>\<open>dose_logs.id\<close>: some identifier that no row
  of the table carries.
\<close>

definition gen_random_uuid :: "DoseLog list \<Rightarrow> uuid" where
  "gen_random_uuid logs = Suc (fold max (map log_id logs) 0)"

text \<open>
  The insert of lines 159-167, with the column defaults of the schema
  (\<^verbatim>\<open>taken_at\<close> null, \<^verbatim>\<open>notes\<close> empty); \<^verbatim>\<open>.select().single()\<close> returns the new row.
\<close>

definition insert_dose_log :: "DoseLog list \<Rightarrow> uuid \<Rightarrow> Date \<Rightarrow> DoseLog list \<times> DoseLog" where
  "insert_dose_log logs sid t =
     (let newLog = \<lparr>log_id = gen_random_uuid logs, schedule_id = sid, scheduled_time = t,
                     taken_at = None, status = Pending, log_notes = ''''\<rparr>
      in (logs @ [newLog], newLog))"

text \<open>The updates of \<^verbatim>\<open>markDoseTaken\<close> and \<^verbatim>\<open>markDoseSkipped\<close>: \<^verbatim>\<open>.update(...).eq('id', id)\<close>.\<close>

definition update_dose_logs :: "(DoseLog \<Rightarrow> DoseLog) \<Rightarrow> uuid \<Rightarrow> DoseLog list \<Rightarrow> DoseLog list" where
  "update_dose_logs f i logs = map (\<lambda>l. if log_id l = i then f l else l) logs"

text \<open>
  The query of \<^verbatim>\<open>loadData\<close>:
  \<^verbatim>\<open>from('medications').select('*, schedules(*)').eq('active', true).order('created_at', {ascending: false})\<close>.
  Each medication carries the schedules that reference it.
\<close>

definition select_medications :: "Database \<Rightarrow> MedicationWithSchedule list" where
  "select_medications d =
     map (\<lambda>m. Medication.extend m
            \<lparr>schedules = filter (\<lambda>s. medication_id s = med_id m) (tbl_schedules d)\<rparr>)
         (rev (sort_key med_created_at (filter med_active (tbl_medications d))))"

section \<open>The dose occurrence materializer\<close>

text \<open>
  The body of the inner loop of \<^verbatim>\<open>generateUpcomingDoses\<close> (lines 143-184) for one
  medication and one of its active schedules. The state threaded through the loop is the
  table \<^verbatim>\<open>dose_logs\<close> and the local array \<^verbatim>\<open>doses\<close>.
\<close>

definition scheduledTime_of :: "TimeZone \<Rightarrow> Date \<Rightarrow> Schedule \<Rightarrow> Date" where
  "scheduledTime_of tz now s = setHours tz now (fst (time s)) (snd (time s))"

definition existingLog_of :: "TimeZone \<Rightarrow> Date \<Rightarrow> DoseLog list \<Rightarrow> Schedule \<Rightarrow> DoseLog option" where
  "existingLog_of tz now logs s =
     maybeSingle (select_dose_logs logs (sched_id s) (scheduledTime_of tz now s)
                    (scheduledTime_of tz now s + 60000))"

definition loop_body ::
  "TimeZone \<Rightarrow> Date \<Rightarrow> MedicationWithSchedule \<Rightarrow> Schedule \<Rightarrow>
   DoseLog list \<times> UpcomingDose list \<Rightarrow> DoseLog list \<times> UpcomingDose list" where
  "loop_body tz now med s st =
     (let (logs, doses) = st in
      if getDay tz now \<notin> set (days_of_week s) then st
      else
        let t = scheduledTime_of tz now s;
            existingLog = existingLog_of tz now logs s
        in if existingLog = None \<and> t - now < 3600000 then
             (let (logs', newLog) = insert_dose_log logs (sched_id s) t
              in (logs', doses @ [\<lparr>dose_id = (sched_id s, t), medication = med, schedule = s,
                                   scheduledTime = t, doseLog = Some newLog\<rparr>]))
           else if existingLog \<noteq> None then
             (logs, doses @ [\<lparr>dose_id = (sched_id s, t), medication = med, schedule = s,
                              scheduledTime = t, doseLog = existingLog\<rparr>])
           else st)"

definition all_doses ::
  "TimeZone \<Rightarrow> Date \<Rightarrow> MedicationWithSchedule list \<Rightarrow> DoseLog list \<Rightarrow> DoseLog list \<times> UpcomingDose list" where
  "all_doses tz now meds logs =
     fold (\<lambda>med. fold (loop_body tz now med) (filter sched_active (schedules med))) meds (logs, [])"

text \<open>
  \<^verbatim>\<open>generateUpcomingDoses\<close>: the two loops, then the stable sort by scheduled time and
  \<^verbatim>\<open>setUpcomingDoses(doses.slice(0, 5))\<close>.
\<close>

definition generateUpcomingDoses :: "TimeZone \<Rightarrow> Date \<Rightarrow> MedicationWithSchedule list \<Rightarrow> App \<Rightarrow> App" where
  "generateUpcomingDoses tz now meds a =
     (let (logs, doses) = all_doses tz now meds (tbl_dose_logs (db a))
      in a\<lparr>db := (db a)\<lparr>tbl_dose_logs := logs\<rparr>,
           upcomingDoses := take 5 (sort_key scheduledTime doses)\<rparr>)"

definition loadData :: "TimeZone \<Rightarrow> Date \<Rightarrow> App \<Rightarrow> App" where
  "loadData tz now a =
     (let meds = select_medications (db a)
      in (generateUpcomingDoses tz now meds (a\<lparr>medications := meds\<rparr>))\<lparr>loading := False\<rparr>)"

section \<open>Patient actions\<close>

text \<open>
  \<^verbatim>\<open>markDoseTaken\<close> and \<^verbatim>\<open>markDoseSkipped\<close>. \<open>clicked\<close> is the clock reading of
  \<^verbatim>\<open>new Date()\<close> in the update, \<open>now\<close> the later one of the reload that follows.
\<close>

definition markDoseTaken :: "TimeZone \<Rightarrow> Date \<Rightarrow> Date \<Rightarrow> UpcomingDose \<Rightarrow> App \<Rightarrow> App" where
  "markDoseTaken tz clicked now dose a =
     (case doseLog dose of
        None \<Rightarrow> a
      | Some l \<Rightarrow>
          loadData tz now
            (a\<lparr>db := (db a)\<lparr>tbl_dose_logs :=
                 update_dose_logs (\<lambda>r. r\<lparr>status := Taken, taken_at := Some clicked\<rparr>) (log_id l)
                   (tbl_dose_logs (db a))\<rparr>\<rparr>))"

definition markDoseSkipped :: "TimeZone \<Rightarrow> Date \<Rightarrow> UpcomingDose \<Rightarrow> App \<Rightarrow> App" where
  "markDoseSkipped tz now dose a =
     (case doseLog dose of
        None \<Rightarrow> a
      | Some l \<Rightarrow>
          loadData tz now
            (a\<lparr>db := (db a)\<lparr>tbl_dose_logs :=
                 update_dose_logs (\<lambda>r. r\<lparr>status := Skipped\<rparr>) (log_id l)
                   (tbl_dose_logs (db a))\<rparr>\<rparr>))"

text \<open>
  The card of one occurrence (lines 433-491): the status shown is that of the occurrence's
  log, \<^verbatim>\<open>pending\<close> when it has none, and the two buttons are rendered only when that status
  is \<^verbatim>\<open>pending\<close>.
\<close>

definition shown_status :: "UpcomingDose \<Rightarrow> dose_status" where
  "shown_status dose = (case doseLog dose of None \<Rightarrow> Pending | Some l \<Rightarrow> status l)"

datatype button = TakenButton | SkipButton

definition click :: "TimeZone \<Rightarrow> Date \<Rightarrow> Date \<Rightarrow> button \<Rightarrow> UpcomingDose \<Rightarrow> App \<Rightarrow> App" where
  "click tz clicked now b dose a =
     (if shown_status dose = Pending then
        (case b of TakenButton \<Rightarrow> markDoseTaken tz clicked now dose a
                 | SkipButton \<Rightarrow> markDoseSkipped tz now dose a)
      else a)"

section \<open>Caregiver dashboard: daily compliance\<close>

text \<open>
  The dose logs that \<^verbatim>\<open>loadData\<close> of \<^verbatim>\<open>CaregiverDashboard\<close> reads for one patient
  (lines 59-72): the logs scheduled at or after local midnight whose schedule belongs to a
  medication of that patient (the two inner joins).
\<close>

definition select_patient_dose_logs :: "Database \<Rightarrow> uuid \<Rightarrow> Date \<Rightarrow> DoseLog list" where
  "select_patient_dose_logs d pid today =
     filter (\<lambda>l. today \<le> scheduled_time l \<and>
                 (\<exists>s\<in>set (tbl_schedules d). sched_id s = schedule_id l \<and>
                    (\<exists>m\<in>set (tbl_medications d). med_id m = medication_id s \<and> patient_id m = pid)))
            (tbl_dose_logs d)"

text \<open>
  A JavaScript number is an IEEE-754 binary64 value. The numbers of line 81 are two array
  lengths, their quotient and its product with 100: finite, and far from both ends of the
  exponent range. Such a number is modelled by the rational it denotes, and an arithmetic
  operation by the exact operation followed by rounding to the nearest rational with a
  53-bit significand, ties to the even significand.
\<close>

definition pow2 :: "int \<Rightarrow> rat" where
  "pow2 e = (if 0 \<le> e then 2 ^ nat e else 1 / 2 ^ nat (- e))"

text \<open>
  The exponent \<open>e\<close> with \<open>2\<^sup>e \<le> x < 2\<^sup>e\<^sup>+\<^sup>1\<close>, for positive \<open>x\<close>: the number of times \<open>x\<close>
  is doubled until it reaches 1, or halved until it falls below 2.
\<close>

function scale_up :: "rat \<Rightarrow> int" where
  "scale_up x = (if 0 < x \<and> x < 1 then scale_up (2 * x) - 1 else 0)"
  by pat_completeness auto
termination
proof (relation "measure (\<lambda>x. nat \<lfloor>1 / x\<rfloor>)")
  show "wf (measure (\<lambda>x::rat. nat \<lfloor>1 / x\<rfloor>))" by simp
next
  fix x :: rat
  assume "0 < x \<and> x < 1"
  then have y: "1 \<le> 1 / x" by simp
  have half: "\<lfloor>y / 2\<rfloor> < \<lfloor>y\<rfloor>" if "1 \<le> y" for y :: rat
  proof -
    have "1 \<le> \<lfloor>y\<rfloor>" using that by (simp add: le_floor_iff)
    then have "(1::rat) \<le> of_int \<lfloor>y\<rfloor>" by simp
    moreover have "y < of_int \<lfloor>y\<rfloor> + 1" by linarith
    ultimately have "y / 2 < of_int \<lfloor>y\<rfloor>" by linarith
    then show ?thesis by (simp add: floor_less_iff)
  qed
  have pos: "1 \<le> \<lfloor>1 / x\<rfloor>" using y by (simp add: le_floor_iff)
  have "\<lfloor>1 / x / 2\<rfloor> < \<lfloor>1 / x\<rfloor>" using y by (rule half)
  moreover have "1 / (2 * x) = 1 / x / 2" by simp
  ultimately have "\<lfloor>1 / (2 * x)\<rfloor> < \<lfloor>1 / x\<rfloor>" by (simp only:)
  then show "(2 * x, x) \<in> measure (\<lambda>x. nat \<lfloor>1 / x\<rfloor>)" using pos by simp
qed

function scale_down :: "rat \<Rightarrow> int" where
  "scale_down x = (if 2 \<le> x then scale_down (x / 2) + 1 else 0)"
  by pat_completeness auto
termination
proof (relation "measure (\<lambda>x. nat \<lfloor>x\<rfloor>)")
  show "wf (measure (\<lambda>x::rat. nat \<lfloor>x\<rfloor>))" by simp
next
  fix x :: rat
  assume "2 \<le> x"
  then have pos: "2 \<le> \<lfloor>x\<rfloor>" by (simp add: le_floor_iff)
  then have "(2::rat) \<le> of_int \<lfloor>x\<rfloor>" by simp
  moreover have "x < of_int \<lfloor>x\<rfloor> + 1" by linarith
  ultimately have "x / 2 < of_int \<lfloor>x\<rfloor>" by linarith
  then have "\<lfloor>x / 2\<rfloor> < \<lfloor>x\<rfloor>" by (simp add: floor_less_iff)
  then show "(x / 2, x) \<in> measure (\<lambda>x. nat \<lfloor>x\<rfloor>)" using pos by simp
qed

definition exponent :: "rat \<Rightarrow> int" where
  "exponent x = (if x < 1 then scale_up x else scale_down x)"

definition ties_to_even :: "rat \<Rightarrow> int" where
  "ties_to_even x =
     (let n = \<lfloor>x\<rfloor>; r = x - of_int n
      in if r < 1 / 2 then n else if 1 / 2 < r then n + 1 else if even n then n else n + 1)"

definition binary64 :: "rat \<Rightarrow> rat" where
  "binary64 x =
     (let u = pow2 (exponent \<bar>x\<bar> - 52)
      in sgn x * of_int (ties_to_even (\<bar>x\<bar> / u)) * u)"

text \<open>\<^verbatim>\<open>Math.round\<close>: the nearest integer, a tie going towards plus infinity.\<close>

definition Math_round :: "rat \<Rightarrow> int" where
  "Math_round x = \<lfloor>x + 1 / 2\<rfloor>"

text \<open>
  Lines 74-81:
  \<^verbatim>\<open>todayCompliance: totalDoses > 0 ? Math.round((takenDoses / totalDoses) * 100) : 100\<close>.
\<close>

definition todayCompliance :: "DoseLog list \<Rightarrow> int" where
  "todayCompliance doseLogs =
     (let totalDoses = length doseLogs;
          takenDoses = length (filter (\<lambda>log. status log = Taken) doseLogs)
      in if totalDoses > 0
         then Math_round (binary64 (binary64 (of_nat takenDoses / of_nat totalDoses) * 100))
         else 100)"

text \<open>
  The compliance as the specification words it: with \<open>K\<close> of \<open>N\<close> logs taken,
  \<open>round (100 \<times> K / N)\<close> on the exact quotient, and 100 when \<open>N = 0\<close>.
\<close>

definition spec_compliance :: "nat \<Rightarrow> nat \<Rightarrow> int" where
  "spec_compliance K N = (if N = 0 then 100 else Math_round (100 * of_nat K / of_nat N))"

section \<open>Vocabulary of the proofs\<close>

definition visited :: "MedicationWithSchedule list \<Rightarrow> (MedicationWithSchedule \<times> Schedule) list" where
  "visited meds = concat (map (\<lambda>med. map (Pair med) (filter sched_active (schedules med))) meds)"

definition visit_all ::
  "TimeZone \<Rightarrow> Date \<Rightarrow> (MedicationWithSchedule \<times> Schedule) list \<Rightarrow>
   DoseLog list \<times> UpcomingDose list \<Rightarrow> DoseLog list \<times> UpcomingDose list" where
  "visit_all tz now ps st = fold (\<lambda>(med, s). loop_body tz now med s) ps st"

definition fresh_rows :: "DoseLog list \<Rightarrow> DoseLog list \<Rightarrow> bool" where
  "fresh_rows old new \<longleftrightarrow>
     (\<forall>r\<in>set new. status r = Pending \<and> taken_at r = None \<and> log_id r \<notin> log_id ` set old)"


definition window_count :: "TimeZone \<Rightarrow> Date \<Rightarrow> DoseLog list \<Rightarrow> Schedule \<Rightarrow> nat" where
  "window_count tz now logs s =
     length (select_dose_logs logs (sched_id s) (scheduledTime_of tz now s)
               (scheduledTime_of tz now s + 60000))"







section \<open>Example data\<close>

text \<open>
  A Monday (5 January 1970, midnight UTC), clock readings on it, one medication with a
  schedule at 08:00 on the five working days, and further schedules and log rows for the
  concrete instances below.
\<close>

definition monday :: Date where
  "monday = 345600000"

definition clock :: "nat \<Rightarrow> nat \<Rightarrow> Date" where
  "clock h m = monday + int h * 3600000 + int m * 60000"

definition weekdays_0800 :: Schedule where
  "weekdays_0800 = \<lparr>sched_id = 1, medication_id = 1, time = (8, 0),
     days_of_week = [1, 2, 3, 4, 5], sched_active = True\<rparr>"

definition weekend_0800 :: Schedule where
  "weekend_0800 = \<lparr>sched_id = 2, medication_id = 1, time = (8, 0),
     days_of_week = [0, 6], sched_active = True\<rparr>"

definition no_day_0800 :: Schedule where
  "no_day_0800 = \<lparr>sched_id = 3, medication_id = 1, time = (8, 0),
     days_of_week = [], sched_active = True\<rparr>"

definition aspirin :: "Schedule list \<Rightarrow> MedicationWithSchedule" where
  "aspirin ss = \<lparr>med_id = 1, patient_id = 1, name = ''Aspirin'', dosage = ''100mg'',
     instructions = '''', med_active = True, med_created_at = 0, schedules = ss\<rparr>"

definition log_row :: "uuid \<Rightarrow> uuid \<Rightarrow> Date \<Rightarrow> Date option \<Rightarrow> dose_status \<Rightarrow> DoseLog" where
  "log_row i sid t tk st = \<lparr>log_id = i, schedule_id = sid, scheduled_time = t, taken_at = tk,
     status = st, log_notes = ''''\<rparr>"

definition example_app :: "DoseLog list \<Rightarrow> App" where
  "example_app logs =
     \<lparr>db = \<lparr>tbl_medications = [Medication.truncate (aspirin [])], tbl_schedules = [weekdays_0800],
             tbl_dose_logs = logs\<rparr>,
      medications = [], upcomingDoses = [], loading = True\<rparr>"

definition example_dose :: "DoseLog option \<Rightarrow> UpcomingDose" where
  "example_dose l = \<lparr>dose_id = (1, clock 8 0), medication = aspirin [weekdays_0800],
     schedule = weekdays_0800, scheduledTime = clock 8 0, doseLog = l\<rparr>"

text \<open>
  Two pending logs for the same 08:00 occurrence, as two passes racing in two tabs leave
  them behind.
\<close>

definition duplicated_logs :: "DoseLog list" where
  "duplicated_logs = [log_row 1 1 (clock 8 0) None Pending, log_row 2 1 (clock 8 0) None Pending]"




text \<open>Forty dose logs of one day, the first twenty-three of them taken.\<close>

definition forty_logs :: "DoseLog list" where
  "forty_logs =
     map (\<lambda>i. log_row i 1 (clock 8 0) (Some (clock 8 0)) Taken) [1..<24] @
     map (\<lambda>i. log_row i 1 (clock 8 0) None Pending) [24..<41]"

text \<open>
  Two time zones: UTC, and New York in 2021, where the clocks go forward at 07:00 UTC on
  14 March (02:00 local becomes 03:00) and back at 06:00 UTC on 7 November. A local time
  that is skipped or repeated takes the offset in force before the change.
\<close>

definition utc_zone :: TimeZone where
  "utc_zone = \<lparr>offset_at = (\<lambda>t. 0), offset_of_local = (\<lambda>t. 0)\<rparr>"

definition new_york :: TimeZone where
  "new_york =
     \<lparr>offset_at = (\<lambda>t. if 1615705200000 \<le> t \<and> t < 1636264800000 then - 14400000 else - 18000000),
      offset_of_local = (\<lambda>t. if 1615690800000 \<le> t \<and> t < 1636250400000 then - 14400000
                               else - 18000000)\<rparr>"

definition sunday_0315 :: Schedule where
  "sunday_0315 = \<lparr>sched_id = 6, medication_id = 1, time = (3, 15),
     days_of_week = [0], sched_active = True\<rparr>"

lemma all_doses_visit_all: "all_doses tz now meds logs = visit_all tz now (visited meds) (logs, [])"
proof -
  have "fold (\<lambda>(med, s). loop_body tz now med s) (visited meds) st =
        fold (\<lambda>med. fold (loop_body tz now med) (filter sched_active (schedules med))) meds st" for st
    unfolding visited_def
    by (induction meds arbitrary: st) (simp_all add: fold_map comp_def)
  then show ?thesis by (simp add: all_doses_def visit_all_def)
qed

lemma visit_all_Nil [simp]: "visit_all tz now [] st = st"
  by (simp add: visit_all_def)

lemma visit_all_Cons [simp]:
  "visit_all tz now ((med, s) # ps) st = visit_all tz now ps (loop_body tz now med s st)"
  by (simp add: visit_all_def)


lemma maybeSingle_Some: "maybeSingle rows = Some r \<longleftrightarrow> rows = [r]"
  by (auto simp: maybeSingle_def split: list.splits)


lemma snd_insert_dose_log [simp]:
  "snd (insert_dose_log logs sid t) =
     \<lparr>log_id = gen_random_uuid logs, schedule_id = sid, scheduled_time = t,
      taken_at = None, status = Pending, log_notes = []\<rparr>"
  by (simp add: insert_dose_log_def Let_def)

lemma fst_insert_dose_log [simp]:
  "fst (insert_dose_log logs sid t) = logs @ [snd (insert_dose_log logs sid t)]"
  by (simp add: insert_dose_log_def Let_def)

lemma loop_body_skip:
  "getDay tz now \<notin> set (days_of_week s) \<Longrightarrow> loop_body tz now med s st = st"
  by (simp add: loop_body_def split: prod.splits)

lemma loop_body_absent:
  "existingLog_of tz now logs s = None \<Longrightarrow> \<not> scheduledTime_of tz now s - now < 3600000 \<Longrightarrow>
   loop_body tz now med s (logs, doses) = (logs, doses)"
  by (simp add: loop_body_def Let_def)

lemma loop_body_create:
  "getDay tz now \<in> set (days_of_week s) \<Longrightarrow> existingLog_of tz now logs s = None \<Longrightarrow>
   scheduledTime_of tz now s - now < 3600000 \<Longrightarrow>
   loop_body tz now med s (logs, doses) =
     (logs @ [snd (insert_dose_log logs (sched_id s) (scheduledTime_of tz now s))],
      doses @ [\<lparr>dose_id = (sched_id s, scheduledTime_of tz now s), medication = med, schedule = s,
                scheduledTime = scheduledTime_of tz now s,
                doseLog = Some (snd (insert_dose_log logs (sched_id s) (scheduledTime_of tz now s)))\<rparr>])"
  by (simp add: loop_body_def Let_def insert_dose_log_def del: snd_insert_dose_log fst_insert_dose_log)

lemma loop_body_found:
  "getDay tz now \<in> set (days_of_week s) \<Longrightarrow> existingLog_of tz now logs s = Some l \<Longrightarrow>
   loop_body tz now med s (logs, doses) =
     (logs, doses @ [\<lparr>dose_id = (sched_id s, scheduledTime_of tz now s), medication = med, schedule = s,
                scheduledTime = scheduledTime_of tz now s, doseLog = Some l\<rparr>])"
  by (simp add: loop_body_def Let_def)

lemma loop_body_cases:
  obtains (skip) "loop_body tz now med s (logs, doses) = (logs, doses)"
     "getDay tz now \<notin> set (days_of_week s) \<or>
      (existingLog_of tz now logs s = None \<and> \<not> scheduledTime_of tz now s - now < 3600000)"
  | (create) "getDay tz now \<in> set (days_of_week s)" "existingLog_of tz now logs s = None"
      "scheduledTime_of tz now s - now < 3600000"
      "loop_body tz now med s (logs, doses) =
         (logs @ [snd (insert_dose_log logs (sched_id s) (scheduledTime_of tz now s))],
          doses @ [\<lparr>dose_id = (sched_id s, scheduledTime_of tz now s), medication = med, schedule = s,
                    scheduledTime = scheduledTime_of tz now s,
                    doseLog = Some (snd (insert_dose_log logs (sched_id s) (scheduledTime_of tz now s)))\<rparr>])"
  | (found) l where "getDay tz now \<in> set (days_of_week s)" "existingLog_of tz now logs s = Some l"
      "loop_body tz now med s (logs, doses) =
         (logs, doses @ [\<lparr>dose_id = (sched_id s, scheduledTime_of tz now s), medication = med, schedule = s,
                    scheduledTime = scheduledTime_of tz now s, doseLog = Some l\<rparr>])"
proof (cases "getDay tz now \<in> set (days_of_week s)")
  case False
  then show ?thesis using skip loop_body_skip by metis
next
  case due: True
  show ?thesis
  proof (cases "existingLog_of tz now logs s")
    case None
    show ?thesis
    proof (cases "scheduledTime_of tz now s - now < 3600000")
      case True
      from loop_body_create[OF due None True] show ?thesis using create due None True by blast
    next
      case False
      from loop_body_absent[OF None False] show ?thesis using skip None False by blast
    qed
  next
    case (Some l)
    from loop_body_found[OF due Some] show ?thesis using found due Some by blast
  qed
qed


lemma visit_all_invariant:
  assumes "P st"
    and "\<And>med s st. (med, s) \<in> set ps \<Longrightarrow> P st \<Longrightarrow> P (loop_body tz now med s st)"
  shows "P (visit_all tz now ps st)"
  using assms
proof (induction ps arbitrary: st)
  case Nil
  then show ?case by simp
next
  case (Cons p ps)
  obtain med s where p: "p = (med, s)" by (cases p)
  have "P (loop_body tz now med s st)" using Cons.prems p by simp
  then have "P (visit_all tz now ps (loop_body tz now med s st))"
    using Cons.IH Cons.prems(2) by simp
  then show ?case by (simp add: p)
qed

lemma fold_max_ge: "(x::nat) \<in> set xs \<Longrightarrow> x \<le> fold max xs a"
proof (induction xs arbitrary: a)
  case Nil
  then show ?case by simp
next
  case (Cons y ys)
  have mono: "b \<le> fold max ys b" for b :: nat
    by (induction ys arbitrary: b) (auto intro: order_trans[OF max.cobounded2])
  show ?case
  proof (cases "x = y")
    case True
    have "y \<le> max y a" by simp
    also have "\<dots> \<le> fold max ys (max y a)" by (rule mono)
    finally show ?thesis using True by simp
  next
    case False
    then show ?thesis using Cons by simp
  qed
qed

lemma gen_random_uuid_fresh: "gen_random_uuid logs \<notin> log_id ` set logs"
proof
  assume "gen_random_uuid logs \<in> log_id ` set logs"
  then have "gen_random_uuid logs \<in> set (map log_id logs)" by simp
  then have "gen_random_uuid logs \<le> fold max (map log_id logs) 0" by (rule fold_max_ge)
  then show False by (simp add: gen_random_uuid_def)
qed

lemma visit_all_appends:
  "\<exists>new. fst (visit_all tz now ps (logs, doses)) = logs @ new \<and> fresh_rows logs new"
proof -
  let ?P = "\<lambda>st :: DoseLog list \<times> UpcomingDose list. \<exists>new. fst st = logs @ new \<and> fresh_rows logs new"
  have "?P (visit_all tz now ps (logs, doses))"
  proof (rule visit_all_invariant[where P = "?P"])
    show "?P (logs, doses)" by (simp add: fresh_rows_def)
  next
    fix med s st
    assume "?P st"
    then obtain new where new: "fst st = logs @ new" "fresh_rows logs new" by blast
    obtain ls ds where st: "st = (ls, ds)" by (cases st)
    have "?P (loop_body tz now med s (ls, ds))"
    proof (cases rule: loop_body_cases[of tz now med s ls ds])
      case skip
      then show ?thesis using new st by auto
    next
      case create
      let ?r = "snd (insert_dose_log ls (sched_id s) (scheduledTime_of tz now s))"
      have "log_id ?r \<notin> log_id ` set ls"
        using gen_random_uuid_fresh[of ls] by simp
      then have "fresh_rows logs (new @ [?r])"
        using new st by (auto simp: fresh_rows_def)
      then show ?thesis using create new st by auto
    next
      case (found l)
      then show ?thesis using new st by auto
    qed
    then show "?P (loop_body tz now med s st)" by (simp add: st)
  qed
  then show ?thesis .
qed

lemma generateUpcomingDoses_db:
  "db (generateUpcomingDoses tz now meds a) =
     (db a)\<lparr>tbl_dose_logs := fst (all_doses tz now meds (tbl_dose_logs (db a)))\<rparr>"
  by (simp add: generateUpcomingDoses_def split: prod.splits)

lemma generateUpcomingDoses_upcoming:
  "upcomingDoses (generateUpcomingDoses tz now meds a) =
     take 5 (sort_key scheduledTime (snd (all_doses tz now meds (tbl_dose_logs (db a)))))"
  by (simp add: generateUpcomingDoses_def split: prod.splits)

lemma generateUpcomingDoses_appends:
  "\<exists>new. tbl_dose_logs (db (generateUpcomingDoses tz now meds a)) = tbl_dose_logs (db a) @ new
         \<and> fresh_rows (tbl_dose_logs (db a)) new"
  using visit_all_appends[of tz now "visited meds" "tbl_dose_logs (db a)" "[]"]
  by (simp add: generateUpcomingDoses_db all_doses_visit_all)

lemma loadData_appends:
  "\<exists>new. tbl_dose_logs (db (loadData tz now a)) = tbl_dose_logs (db a) @ new
         \<and> fresh_rows (tbl_dose_logs (db a)) new"
  using generateUpcomingDoses_appends[of tz now "select_medications (db a)"
          "a\<lparr>medications := select_medications (db a)\<rparr>"]
  by (simp add: loadData_def Let_def)

lemma mark_taken_db:
  "doseLog dose = Some l \<Longrightarrow>
   \<exists>new. tbl_dose_logs (db (markDoseTaken tz clicked now dose a)) =
           update_dose_logs (\<lambda>r. r\<lparr>status := Taken, taken_at := Some clicked\<rparr>) (log_id l)
             (tbl_dose_logs (db a)) @ new \<and>
         fresh_rows (update_dose_logs (\<lambda>r. r\<lparr>status := Taken, taken_at := Some clicked\<rparr>) (log_id l)
             (tbl_dose_logs (db a))) new"
  using loadData_appends[of tz now "a\<lparr>db := (db a)\<lparr>tbl_dose_logs :=
                 update_dose_logs (\<lambda>r. r\<lparr>status := Taken, taken_at := Some clicked\<rparr>) (log_id l)
                   (tbl_dose_logs (db a))\<rparr>\<rparr>"]
  by (simp add: markDoseTaken_def)

subsection \<open>Window counts\<close>





lemma window_count_append [simp]:
  "window_count tz now (logs @ [\<lparr>log_id = i, schedule_id = sched_id s,
      scheduled_time = scheduledTime_of tz now s, taken_at = tk, status = st, log_notes = n\<rparr>]) s' =
     window_count tz now logs s' +
       (if sched_id s = sched_id s' \<and> scheduledTime_of tz now s' \<le> scheduledTime_of tz now s \<and>
           scheduledTime_of tz now s < scheduledTime_of tz now s' + 60000 then 1 else 0)"
  by (auto simp: window_count_def select_dose_logs_def)




















subsection \<open>Cards and processing order\<close>












section \<open>Frame and patient actions\<close>

text \<open>
  Claim C8. A materialization pass changes the persistent state only by adding rows to
  \<^verbatim>\<open>dose_logs\<close>: the tables of medications and schedules are the same after the pass, and
  the dose logs present before the pass are, unchanged and in place, the first rows of the
  table after it. The medications held by the component are not touched either.
\<close>

theorem materialization_frame:
  "tbl_medications (db (generateUpcomingDoses tz now meds a)) = tbl_medications (db a) \<and>
   tbl_schedules (db (generateUpcomingDoses tz now meds a)) = tbl_schedules (db a) \<and>
   prefix (tbl_dose_logs (db a)) (tbl_dose_logs (db (generateUpcomingDoses tz now meds a))) \<and>
   medications (generateUpcomingDoses tz now meds a) = medications a \<and>
   loading (generateUpcomingDoses tz now meds a) = loading a"
proof -
  have "prefix (tbl_dose_logs (db a)) (tbl_dose_logs (db (generateUpcomingDoses tz now meds a)))"
    using generateUpcomingDoses_appends[of tz now meds a] by (auto simp: prefix_def)
  moreover have "medications (generateUpcomingDoses tz now meds a) = medications a"
    "loading (generateUpcomingDoses tz now meds a) = loading a"
    by (simp_all add: generateUpcomingDoses_def split: prod.splits)
  ultimately show ?thesis by (simp add: generateUpcomingDoses_db)
qed

text \<open>
  Claim C9. \<^verbatim>\<open>markDoseTaken\<close> and \<^verbatim>\<open>markDoseSkipped\<close> on an occurrence without a
  backing dose log return at once: no request is sent and the whole state, database and
  component, is what it was.
\<close>

theorem mark_without_log_noop:
  "doseLog dose = None \<Longrightarrow>
     markDoseTaken tz clicked now dose a = a \<and> markDoseSkipped tz now dose a = a"
  by (simp add: markDoseTaken_def markDoseSkipped_def)

theorem mark_without_log_noop_witness:
  "doseLog (example_dose None) = None \<and>
   markDoseTaken utc_zone (clock 7 35) (clock 7 35) (example_dose None) (example_app []) = example_app [] \<and>
   markDoseSkipped utc_zone (clock 7 35) (example_dose None) (example_app []) = example_app []"
proof -
  have h: "doseLog (example_dose None) = None"
    by (simp add: example_dose_def)
  show ?thesis
    using h mark_without_log_noop[OF h] by simp
qed

text \<open>
  Claim C7. Marking an occurrence taken writes status \<^verbatim>\<open>taken\<close> and a taken timestamp
  equal to the clock reading of the action into its dose log: the backing row, so updated,
  is in the table afterwards, and every row that carries the identifier of the backing log
  has status \<^verbatim>\<open>taken\<close> and that timestamp. This holds whatever the row's status was, so in
  particular for a pending occurrence.
\<close>

theorem mark_taken_records:
  assumes log: "doseLog dose = Some l"
    and row: "r \<in> set (tbl_dose_logs (db a))" "log_id r = log_id l"
  shows "r\<lparr>status := Taken, taken_at := Some clicked\<rparr>
           \<in> set (tbl_dose_logs (db (markDoseTaken tz clicked now dose a))) \<and>
         (\<forall>r'\<in>set (tbl_dose_logs (db (markDoseTaken tz clicked now dose a))).
            log_id r' = log_id l \<longrightarrow> status r' = Taken \<and> taken_at r' = Some clicked)"
proof -
  let ?f = "\<lambda>r. r\<lparr>status := Taken, taken_at := Some clicked\<rparr>"
  let ?upd = "update_dose_logs ?f (log_id l) (tbl_dose_logs (db a))"
  obtain new where new: "tbl_dose_logs (db (markDoseTaken tz clicked now dose a)) = ?upd @ new"
    "fresh_rows ?upd new"
    using mark_taken_db[OF log] by blast
  have in_upd: "?f r \<in> set ?upd"
    using row by (force simp: update_dose_logs_def)
  have upd: "status r' = Taken \<and> taken_at r' = Some clicked"
    if "r' \<in> set ?upd" "log_id r' = log_id l" for r'
    using that by (auto simp: update_dose_logs_def split: if_splits)
  have "log_id r' \<noteq> log_id l" if "r' \<in> set new" for r'
  proof -
    have "log_id r' \<notin> log_id ` set ?upd" using new(2) that by (simp add: fresh_rows_def)
    moreover have "log_id (?f r) = log_id l" using row(2) by simp
    then have "log_id l \<in> log_id ` set ?upd" using in_upd by (metis imageI)
    ultimately show ?thesis by auto
  qed
  then show ?thesis using new(1) in_upd upd by auto
qed

theorem mark_taken_records_witness:
  "doseLog (example_dose (Some (log_row 1 1 (clock 8 0) None Pending)))
     = Some (log_row 1 1 (clock 8 0) None Pending) \<and>
   log_row 1 1 (clock 8 0) None Pending
     \<in> set (tbl_dose_logs (db (example_app [log_row 1 1 (clock 8 0) None Pending]))) \<and>
   log_row 1 1 (clock 8 0) (Some (clock 7 35)) Taken
     \<in> set (tbl_dose_logs (db (markDoseTaken utc_zone (clock 7 35) (clock 7 40)
              (example_dose (Some (log_row 1 1 (clock 8 0) None Pending)))
              (example_app [log_row 1 1 (clock 8 0) None Pending]))))"
proof -
  let ?l = "log_row 1 1 (clock 8 0) None Pending"
  have h1: "doseLog (example_dose (Some ?l)) = Some ?l"
    by (simp add: example_dose_def)
  have h2: "?l \<in> set (tbl_dose_logs (db (example_app [?l])))"
    by (simp add: example_app_def)
  have e: "?l\<lparr>status := Taken, taken_at := Some (clock 7 35)\<rparr>
             = log_row 1 1 (clock 8 0) (Some (clock 7 35)) Taken"
    by (simp add: log_row_def)
  have "?l\<lparr>status := Taken, taken_at := Some (clock 7 35)\<rparr>
          \<in> set (tbl_dose_logs (db (markDoseTaken utc_zone (clock 7 35) (clock 7 40)
                   (example_dose (Some ?l)) (example_app [?l]))))"
    using mark_taken_records[OF h1 h2 refl, where tz = utc_zone and clicked = "clock 7 35"
            and now = "clock 7 40"]
    by (rule conjunct1)
  then have "log_row 1 1 (clock 8 0) (Some (clock 7 35)) Taken
          \<in> set (tbl_dose_logs (db (markDoseTaken utc_zone (clock 7 35) (clock 7 40)
                   (example_dose (Some ?l)) (example_app [?l]))))"
    by (simp only: e)
  with h1 h2 show ?thesis
    by (intro conjI)
qed

text \<open>
  Claim C3 says that a status change on a dose log in a terminal state is a no-op or an
  error. The cards protect a terminal status on the display only: the two buttons are
  rendered for an occurrence whose shown status is \<^verbatim>\<open>pending\<close>, and they stay enabled while
  a request is in flight. The handlers update by identifier and never read the stored
  status. The patient presses Taken at 07:35 on the pending 08:00 occurrence and then Skip
  on the same card, which still holds the pending snapshot: the row is \<^verbatim>\<open>taken\<close> after the
  first click and \<^verbatim>\<open>skipped\<close>, with its taken timestamp still set, after the second.
\<close>

theorem terminal_status_overwritten:
  "shown_status (example_dose (Some (log_row 1 1 (clock 8 0) None Pending))) = Pending \<and>
   tbl_dose_logs (db (click utc_zone (clock 7 35) (clock 7 35) TakenButton
       (example_dose (Some (log_row 1 1 (clock 8 0) None Pending)))
       (example_app [log_row 1 1 (clock 8 0) None Pending])))
     = [log_row 1 1 (clock 8 0) (Some (clock 7 35)) Taken] \<and>
   tbl_dose_logs (db (click utc_zone (clock 7 35) (clock 7 35) SkipButton
       (example_dose (Some (log_row 1 1 (clock 8 0) None Pending)))
       (click utc_zone (clock 7 35) (clock 7 35) TakenButton
          (example_dose (Some (log_row 1 1 (clock 8 0) None Pending)))
          (example_app [log_row 1 1 (clock 8 0) None Pending]))))
     = [log_row 1 1 (clock 8 0) (Some (clock 7 35)) Skipped]"
  by code_simp

section \<open>Occurrences that are not materialized\<close>

text \<open>
  Claim C5. When no visited schedule with a given identifier has today's weekday index
  in its weekday set (the empty set included), one pass computes no occurrence for that
  schedule, exposes none, and leaves the dose logs of that schedule as they were, whatever
  the schedule's time of day.
\<close>

theorem not_due_today_nothing:
  assumes "\<forall>(med, s)\<in>set (visited meds). sched_id s = sid \<longrightarrow> getDay tz now \<notin> set (days_of_week s)"
  shows "(\<forall>d\<in>set (snd (all_doses tz now meds (tbl_dose_logs (db a)))). sched_id (schedule d) \<noteq> sid) \<and>
         (\<forall>d\<in>set (upcomingDoses (generateUpcomingDoses tz now meds a)). sched_id (schedule d) \<noteq> sid) \<and>
         filter (\<lambda>l. schedule_id l = sid) (tbl_dose_logs (db (generateUpcomingDoses tz now meds a))) =
         filter (\<lambda>l. schedule_id l = sid) (tbl_dose_logs (db a))"
proof -
  let ?logs = "tbl_dose_logs (db a)"
  let ?P = "\<lambda>st :: DoseLog list \<times> UpcomingDose list. (\<forall>d\<in>set (snd st). sched_id (schedule d) \<noteq> sid) \<and>
                  filter (\<lambda>l. schedule_id l = sid) (fst st) = filter (\<lambda>l. schedule_id l = sid) ?logs"
  have P: "?P (visit_all tz now (visited meds) (?logs, []))"
  proof (rule visit_all_invariant[where P = "?P"])
    show "?P (?logs, [])" by simp
  next
    fix med s st
    assume vis: "(med, s) \<in> set (visited meds)" and inv: "?P st"
    obtain ls ds where st: "st = (ls, ds)" by (cases st)
    show "?P (loop_body tz now med s st)"
    proof (cases "sched_id s = sid")
      case True
      then have "getDay tz now \<notin> set (days_of_week s)" using assms vis by auto
      then show ?thesis using inv by (simp add: loop_body_skip)
    next
      case False
      have "?P (loop_body tz now med s (ls, ds))"
      proof (cases rule: loop_body_cases[of tz now med s ls ds])
        case skip
        then show ?thesis using inv st by simp
      next
        case create
        then show ?thesis using inv st False by simp
      next
        case (found l)
        then show ?thesis using inv st False by simp
      qed
      then show ?thesis by (simp add: st)
    qed
  qed
  have "set (take 5 (sort_key scheduledTime (snd (all_doses tz now meds ?logs))))
          \<subseteq> set (snd (all_doses tz now meds ?logs))"
    using set_take_subset[of 5 "sort_key scheduledTime (snd (all_doses tz now meds ?logs))"] by simp
  then show ?thesis
    using P by (auto simp: generateUpcomingDoses_db generateUpcomingDoses_upcoming all_doses_visit_all)
qed

theorem not_due_today_nothing_witness:
  "days_of_week no_day_0800 = [] \<and> getDay utc_zone (clock 7 30) = 1 \<and>
   filter (\<lambda>d. sched_id (schedule d) = sched_id no_day_0800)
     (snd (all_doses utc_zone (clock 7 30) [aspirin [weekdays_0800, weekend_0800, no_day_0800]]
        (tbl_dose_logs (db (example_app []))))) = [] \<and>
   filter (\<lambda>d. sched_id (schedule d) = sched_id weekend_0800)
     (snd (all_doses utc_zone (clock 7 30) [aspirin [weekdays_0800, weekend_0800, no_day_0800]]
        (tbl_dose_logs (db (example_app []))))) = [] \<and>
   map schedule_id (tbl_dose_logs (db (generateUpcomingDoses utc_zone (clock 7 30)
        [aspirin [weekdays_0800, weekend_0800, no_day_0800]] (example_app [])))) = [1]"
proof -
  let ?meds = "[aspirin [weekdays_0800, weekend_0800, no_day_0800]]"
  have h3: "\<forall>(med, s)\<in>set (visited ?meds).
              sched_id s = sched_id no_day_0800 \<longrightarrow> getDay utc_zone (clock 7 30) \<notin> set (days_of_week s)"
    by code_simp
  have h2: "\<forall>(med, s)\<in>set (visited ?meds).
              sched_id s = sched_id weekend_0800 \<longrightarrow> getDay utc_zone (clock 7 30) \<notin> set (days_of_week s)"
    by code_simp
  have d: "days_of_week no_day_0800 = []" "getDay utc_zone (clock 7 30) = 1"
    by code_simp+
  have e: "map schedule_id (tbl_dose_logs (db (generateUpcomingDoses utc_zone (clock 7 30) ?meds
             (example_app [])))) = [1]"
    by code_simp
  have "filter (\<lambda>d. sched_id (schedule d) = sched_id no_day_0800)
          (snd (all_doses utc_zone (clock 7 30) ?meds (tbl_dose_logs (db (example_app []))))) = []"
    using not_due_today_nothing[OF h3, of "example_app []"] by (simp add: filter_empty_conv)
  moreover have "filter (\<lambda>d. sched_id (schedule d) = sched_id weekend_0800)
          (snd (all_doses utc_zone (clock 7 30) ?meds (tbl_dose_logs (db (example_app []))))) = []"
    using not_due_today_nothing[OF h2, of "example_app []"] by (simp add: filter_empty_conv)
  ultimately show ?thesis
    using d e by (intro conjI)
qed

text \<open>
  On the day the clocks go forward in New York, at 01:30 local time, the occurrence of a
  schedule at 03:15 is composed under the new offset: it is 45 minutes ahead, not 105, and
  the pass creates and shows its log.
\<close>

lemma clock_change_day_occurrence:
  "LocalTime new_york 1615703400000 = 1615685400000 \<and>
   getDay new_york 1615703400000 = 0 \<and>
   scheduledTime_of new_york 1615703400000 sunday_0315 = 1615706100000 \<and>
   tbl_dose_logs (db (generateUpcomingDoses new_york 1615703400000 [aspirin [sunday_0315]]
      (example_app []))) = [log_row 1 6 1615706100000 None Pending]"
  by code_simp

text \<open>
  Claim C10. A schedule whose occurrence of today, composed on the local clock, lies one
  hour or more after now and has no dose log in its one-minute window is absent from the
  output of the pass: no computed and no exposed occurrence belongs to it, and after the
  pass its window holds no row.
\<close>

theorem far_future_unlogged_absent:
  assumes far: "3600000 \<le> scheduledTime_of tz now s - now"
    and none: "select_dose_logs (tbl_dose_logs (db a)) (sched_id s) (scheduledTime_of tz now s)
                 (scheduledTime_of tz now s + 60000) = []"
  shows "(\<forall>d\<in>set (snd (all_doses tz now meds (tbl_dose_logs (db a)))). schedule d \<noteq> s) \<and>
         (\<forall>d\<in>set (upcomingDoses (generateUpcomingDoses tz now meds a)). schedule d \<noteq> s) \<and>
         select_dose_logs (tbl_dose_logs (db (generateUpcomingDoses tz now meds a))) (sched_id s)
            (scheduledTime_of tz now s) (scheduledTime_of tz now s + 60000) = []"
proof -
  let ?logs = "tbl_dose_logs (db a)"
  let ?t = "scheduledTime_of tz now s"
  let ?P = "\<lambda>st :: DoseLog list \<times> UpcomingDose list. (\<forall>d\<in>set (snd st). schedule d \<noteq> s) \<and>
                  select_dose_logs (fst st) (sched_id s) ?t (?t + 60000) = []"
  have P: "?P (visit_all tz now (visited meds) (?logs, []))"
  proof (rule visit_all_invariant[where P = "?P"])
    show "?P (?logs, [])" using none by simp
  next
    fix med s' st
    assume inv: "?P st"
    obtain ls ds where st: "st = (ls, ds)" by (cases st)
    have "?P (loop_body tz now med s' (ls, ds))"
    proof (cases rule: loop_body_cases[of tz now med s' ls ds])
      case skip
      then show ?thesis using inv st by simp
    next
      case create
      have "s' \<noteq> s" using create(3) far by auto
      moreover have "\<not> (?t \<le> scheduledTime_of tz now s')" using create(3) far by linarith
      ultimately show ?thesis using inv st create
        by (simp add: select_dose_logs_def)
    next
      case (found l)
      have "s' \<noteq> s"
      proof
        assume "s' = s"
        then have "existingLog_of tz now ls s = Some l" using found by simp
        then show False using inv st by (simp add: existingLog_of_def maybeSingle_Some)
      qed
      then show ?thesis using inv st found by simp
    qed
    then show "?P (loop_body tz now med s' st)" by (simp add: st)
  qed
  have "set (take 5 (sort_key scheduledTime (snd (all_doses tz now meds ?logs))))
          \<subseteq> set (snd (all_doses tz now meds ?logs))"
    using set_take_subset[of 5 "sort_key scheduledTime (snd (all_doses tz now meds ?logs))"] by simp
  then show ?thesis
    using P by (auto simp: generateUpcomingDoses_db generateUpcomingDoses_upcoming all_doses_visit_all)
qed

theorem far_future_unlogged_absent_witness:
  "3600000 \<le> scheduledTime_of utc_zone (clock 5 0) weekdays_0800 - clock 5 0 \<and>
   select_dose_logs (tbl_dose_logs (db (example_app []))) (sched_id weekdays_0800)
     (scheduledTime_of utc_zone (clock 5 0) weekdays_0800)
     (scheduledTime_of utc_zone (clock 5 0) weekdays_0800 + 60000) = [] \<and>
   getDay utc_zone (clock 5 0) \<in> set (days_of_week weekdays_0800) \<and>
   filter (\<lambda>d. schedule d = weekdays_0800)
     (snd (all_doses utc_zone (clock 5 0) [aspirin [weekdays_0800]]
        (tbl_dose_logs (db (example_app []))))) = [] \<and>
   select_dose_logs (tbl_dose_logs (db (generateUpcomingDoses utc_zone (clock 5 0)
        [aspirin [weekdays_0800]] (example_app [])))) (sched_id weekdays_0800)
     (scheduledTime_of utc_zone (clock 5 0) weekdays_0800)
     (scheduledTime_of utc_zone (clock 5 0) weekdays_0800 + 60000) = [] \<and>
   scheduledTime_of new_york 1615698600000 sunday_0315 - 1615698600000 = 7500000 \<and>
   getDay new_york 1615698600000 \<in> set (days_of_week sunday_0315) \<and>
   filter (\<lambda>d. schedule d = sunday_0315)
     (upcomingDoses (generateUpcomingDoses new_york 1615698600000 [aspirin [sunday_0315]]
        (example_app []))) = []"
proof -
  have far: "3600000 \<le> scheduledTime_of utc_zone (clock 5 0) weekdays_0800 - clock 5 0"
    by code_simp
  have none: "select_dose_logs (tbl_dose_logs (db (example_app []))) (sched_id weekdays_0800)
     (scheduledTime_of utc_zone (clock 5 0) weekdays_0800)
     (scheduledTime_of utc_zone (clock 5 0) weekdays_0800 + 60000) = []"
    by code_simp
  have due: "getDay utc_zone (clock 5 0) \<in> set (days_of_week weekdays_0800)"
    by code_simp
  note inst = far_future_unlogged_absent[OF far none, of "[aspirin [weekdays_0800]]"]
  have a: "filter (\<lambda>d. schedule d = weekdays_0800)
     (snd (all_doses utc_zone (clock 5 0) [aspirin [weekdays_0800]]
        (tbl_dose_logs (db (example_app []))))) = []"
    using inst by (simp add: filter_empty_conv)
  have b: "select_dose_logs (tbl_dose_logs (db (generateUpcomingDoses utc_zone (clock 5 0)
        [aspirin [weekdays_0800]] (example_app [])))) (sched_id weekdays_0800)
     (scheduledTime_of utc_zone (clock 5 0) weekdays_0800)
     (scheduledTime_of utc_zone (clock 5 0) weekdays_0800 + 60000) = []"
    using inst by blast
  have ny: "scheduledTime_of new_york 1615698600000 sunday_0315 - 1615698600000 = 7500000"
    by code_simp
  have far': "3600000 \<le> scheduledTime_of new_york 1615698600000 sunday_0315 - 1615698600000"
    by (simp add: ny)
  have none': "select_dose_logs (tbl_dose_logs (db (example_app []))) (sched_id sunday_0315)
     (scheduledTime_of new_york 1615698600000 sunday_0315)
     (scheduledTime_of new_york 1615698600000 sunday_0315 + 60000) = []"
    by code_simp
  have due': "getDay new_york 1615698600000 \<in> set (days_of_week sunday_0315)"
    by code_simp
  have c: "filter (\<lambda>d. schedule d = sunday_0315)
     (upcomingDoses (generateUpcomingDoses new_york 1615698600000 [aspirin [sunday_0315]]
        (example_app []))) = []"
    using far_future_unlogged_absent[OF far' none', of "[aspirin [sunday_0315]]"]
    by (simp add: filter_empty_conv)
  from far none due a b ny due' c show ?thesis
    by (intro conjI)
qed

section \<open>Materialization\<close>

text \<open>
  Claim C1 says that a pass creates a row for a due schedule exactly when no dose log
  exists in the one-minute window and the occurrence is less than one hour ahead. The code
  asks for the window with \<^verbatim>\<open>maybeSingle()\<close>, which yields no row both for an empty window
  and for a window with two or more rows. With the two logs of a duplicated occurrence in
  the window, the pass at 07:30 creates a third pending log for 08:00, although logs for
  that occurrence exist.
\<close>

theorem duplicated_occurrence_gets_third_log:
  "window_count utc_zone (clock 7 30) duplicated_logs weekdays_0800 = 2 \<and>
   getDay utc_zone (clock 7 30) \<in> set (days_of_week weekdays_0800) \<and>
   scheduledTime_of utc_zone (clock 7 30) weekdays_0800 = clock 8 0 \<and>
   tbl_dose_logs (db (generateUpcomingDoses utc_zone (clock 7 30) [aspirin [weekdays_0800]]
      (example_app duplicated_logs)))
     = duplicated_logs @ [log_row 3 1 (clock 8 0) None Pending]"
  by code_simp




section \<open>The exposed list\<close>




section \<open>Compliance\<close>

text \<open>
  Claim C4 says that the reported compliance is \<open>round (100 \<times> K / N)\<close>, and 100 when
  \<open>N = 0\<close>. The code computes \<^verbatim>\<open>Math.round((takenDoses / totalDoses) * 100)\<close> in binary64
  arithmetic: the quotient is rounded before it is multiplied. With 23 of 40 logs taken the
  exact percentage is 57.5 and rounds to 58; the quotient 23/40 is rounded down to the
  nearest binary64 number, its product with 100 is 57.49999999999999 and the code reports
  57. With no log at all the code reports 100.
\<close>

theorem compliance_23_of_40:
  "select_patient_dose_logs (db (example_app forty_logs)) 1 monday = forty_logs \<and>
   length forty_logs = 40 \<and>
   length (filter (\<lambda>log. status log = Taken) forty_logs) = 23 \<and>
   todayCompliance forty_logs = 57 \<and>
   spec_compliance 23 40 = 58 \<and>
   todayCompliance [] = 100"
proof -
  have q: "select_patient_dose_logs (db (example_app forty_logs)) 1 monday = forty_logs"
    by code_simp
  have n: "length forty_logs = 40"
    by code_simp
  have k: "length (filter (\<lambda>log. status log = Taken) forty_logs) = 23"
    by code_simp
  have r: "Math_round (binary64 (binary64 (23 / 40) * 100)) = 57"
    by code_simp
  have c: "todayCompliance forty_logs = 57"
    by (simp add: todayCompliance_def n k r)
  have s: "spec_compliance 23 40 = 58"
    by code_simp
  have z: "todayCompliance [] = 100"
    by (simp add: todayCompliance_def)
  from q n k c s z show ?thesis
    by (intro conjI)
qed

end
